theory Spec2Isabelle
  imports Complex_Main
begin

section \<open>Progress callbacks of waffle\_hub (utils/callback.py)\<close>

text \<open>
  The module defines one class, \<^verbatim>\<open>ThreadProgressCallback\<close>, and three subclasses that add
  output paths. Objects are mutated in place; the model passes the object explicitly and
  returns it updated. Exceptions and warnings are values of the result.

  Numbers: \<^verbatim>\<open>step\<close> and \<^verbatim>\<open>total_steps\<close> are Python integers (\<open>int\<close>). The quotient
  \<^verbatim>\<open>step / total_steps\<close> and the clock readings are Python floats. A finite float is
  modelled by the real number it stands for, and an arithmetic result by the exact result:
  rounding to the nearest double (and with it underflow) is not modelled. Python's \<^verbatim>\<open>/\<close>
  raises \<^verbatim>\<open>ZeroDivisionError\<close> on a zero divisor, which the model keeps. Results too large
  for a double are treated as follows: float arithmetic (in \<^verbatim>\<open>get_remaining_time\<close>) yields an
  infinity, which the model keeps; the division of two integers raises \<^verbatim>\<open>OverflowError\<close>,
  which \<open>true_div\<close> leaves out, so a statement about a quotient that can leave the range of
  the doubles carries the hypothesis \<open>in_float_range\<close>.
\<close>

subsection \<open>Results of a call\<close>

datatype error = ZeroDivisionError | RuntimeError

datatype 'r outcome = Returned 'r | Raised error


text \<open>
  The largest double is \<open>2^1024 - 2^971\<close>. Rounding to nearest takes every real of
  magnitude below \<open>2^1024 - 2^970\<close> to a finite double and every other real to an infinity.
\<close>

definition overflow_threshold :: real where
  "overflow_threshold = 2 ^ 1024 - 2 ^ 970"

definition in_float_range :: "real \<Rightarrow> bool" where
  "in_float_range x = (\<bar>x\<bar> < overflow_threshold)"




text \<open>
  Python's true division of two integers. (When the quotient is not \<open>in_float_range\<close>,
  Python raises \<^verbatim>\<open>OverflowError\<close> instead of returning; \<open>true_div\<close> does not have that
  path, see above.)
\<close>

definition true_div :: "int \<Rightarrow> int \<Rightarrow> real outcome" where
  "true_div a b = (if b = 0 then Raised ZeroDivisionError else Returned (of_int a / of_int b))"

subsection \<open>The worker thread\<close>

text \<open>
  A \<^verbatim>\<open>threading.Thread\<close> as far as \<^verbatim>\<open>start()\<close> and \<^verbatim>\<open>join()\<close> see it: a thread is started at
  most once and joined only after it was started (the standard library raises
  \<^verbatim>\<open>RuntimeError\<close> otherwise); \<^verbatim>\<open>join()\<close> returns when the thread has ended. What the
  thread's target does while it runs is not part of this model.
\<close>

datatype thread = Initial | Alive | Dead

fun thread_start :: "thread \<Rightarrow> thread outcome" where
  "thread_start Initial = Returned Alive"
| "thread_start Alive = Raised RuntimeError"
| "thread_start Dead = Raised RuntimeError"

fun thread_join :: "thread \<Rightarrow> thread outcome" where
  "thread_join Initial = Raised RuntimeError"
| "thread_join Alive = Returned Dead"
| "thread_join Dead = Returned Dead"

subsection \<open>ThreadProgressCallback\<close>

record thread_progress_callback =
  total_steps :: int
  thread :: "thread option"
  finished :: bool
  progress :: real
  start_time :: real

text \<open>\<^verbatim>\<open>__init__(total_steps)\<close>; \<open>now\<close> is what \<^verbatim>\<open>time.time()\<close> returns during the call.\<close>

definition init :: "int \<Rightarrow> real \<Rightarrow> thread_progress_callback" where
  "init tot now =
     \<lparr>total_steps = tot, thread = None, finished = False, progress = 0, start_time = now\<rparr>"

definition get_progress :: "'a thread_progress_callback_scheme \<Rightarrow> real" where
  "get_progress h = progress h"

definition is_finished :: "'a thread_progress_callback_scheme \<Rightarrow> bool" where
  "is_finished h = finished h"


text \<open>
  A call of \<^verbatim>\<open>update\<close> yields the warnings it emitted, its outcome and the object as the
  call left it. In the second branch \<^verbatim>\<open>_finished\<close> is assigned before the division is
  evaluated, so the assignment survives a \<^verbatim>\<open>ZeroDivisionError\<close>.
\<close>

definition update ::
  "int \<Rightarrow> 'a thread_progress_callback_scheme
     \<Rightarrow> string list \<times> unit outcome \<times> 'a thread_progress_callback_scheme" where
  "update step h =
     (if finished h then ([''Callback has already ended''], Returned (), h)
      else if step \<ge> total_steps h then
        (let h1 = h\<lparr>finished := True\<rparr>
         in case true_div step (total_steps h1) of
              Raised e \<Rightarrow> ([], Raised e, h1)
            | Returned q \<Rightarrow> ([], Returned (), h1\<lparr>progress := q\<rparr>))
      else
        (case true_div step (total_steps h) of
           Raised e \<Rightarrow> ([], Raised e, h)
         | Returned q \<Rightarrow> ([], Returned (), h\<lparr>progress := q\<rparr>)))"

definition force_finish ::
  "'a thread_progress_callback_scheme \<Rightarrow> 'a thread_progress_callback_scheme" where
  "force_finish h = h\<lparr>finished := True\<rparr>"

definition register_thread ::
  "thread \<Rightarrow> 'a thread_progress_callback_scheme \<Rightarrow> 'a thread_progress_callback_scheme" where
  "register_thread t h = h\<lparr>thread := Some t\<rparr>"

definition start ::
  "'a thread_progress_callback_scheme
     \<Rightarrow> unit outcome \<times> 'a thread_progress_callback_scheme" where
  "start h =
     (case thread h of
        None \<Rightarrow> (Returned (), h)
      | Some t \<Rightarrow>
          (case thread_start t of
             Raised e \<Rightarrow> (Raised e, h)
           | Returned t' \<Rightarrow> (Returned (), h\<lparr>thread := Some t'\<rparr>)))"

definition join ::
  "'a thread_progress_callback_scheme
     \<Rightarrow> unit outcome \<times> 'a thread_progress_callback_scheme" where
  "join h =
     (case thread h of
        None \<Rightarrow> (Returned (), h)
      | Some t \<Rightarrow>
          (case thread_join t of
             Raised e \<Rightarrow> (Raised e, h)
           | Returned t' \<Rightarrow> (Returned (), h\<lparr>thread := Some t'\<rparr>)))"

subsection \<open>TrainCallback\<close>

record train_callback = thread_progress_callback +
  best_ckpt_file :: "string option"
  last_ckpt_file :: "string option"
  result_dir :: "string option"
  metric_file :: "string option"

text \<open>
  \<^verbatim>\<open>_get_metric_func\<close> is supplied by the caller and reads state outside the object; the
  list it returns at a call is an argument of the model (\<open>metrics\<close>).
\<close>

definition train_init :: "int \<Rightarrow> real \<Rightarrow> train_callback" where
  "train_init tot now =
     thread_progress_callback.extend (init tot now)
       (train_callback.fields None None None None)"

definition set_best_ckpt_file ::
  "string \<Rightarrow> 'a train_callback_scheme \<Rightarrow> 'a train_callback_scheme" where
  "set_best_ckpt_file path h = h\<lparr>best_ckpt_file := Some path\<rparr>"

definition set_last_ckpt_file ::
  "string \<Rightarrow> 'a train_callback_scheme \<Rightarrow> 'a train_callback_scheme" where
  "set_last_ckpt_file path h = h\<lparr>last_ckpt_file := Some path\<rparr>"

definition set_result_dir ::
  "string \<Rightarrow> 'a train_callback_scheme \<Rightarrow> 'a train_callback_scheme" where
  "set_result_dir path h = h\<lparr>result_dir := Some path\<rparr>"

definition set_metric_file ::
  "string \<Rightarrow> 'a train_callback_scheme \<Rightarrow> 'a train_callback_scheme" where
  "set_metric_file path h = h\<lparr>metric_file := Some path\<rparr>"

definition get_metrics :: "'m list \<Rightarrow> 'a train_callback_scheme \<Rightarrow> 'm list" where
  "get_metrics metrics h = metrics"

text \<open>
  The override of \<^verbatim>\<open>get_progress\<close>: an exception raised inside \<^verbatim>\<open>self.update\<close> leaves the
  method at once; otherwise the quotient is computed again and stored, whatever
  \<^verbatim>\<open>_finished\<close> is.
\<close>

definition train_get_progress ::
  "'m list \<Rightarrow> 'a train_callback_scheme
     \<Rightarrow> string list \<times> real outcome \<times> 'a train_callback_scheme" where
  "train_get_progress metrics h =
     (if length metrics = 0 then ([], Returned 0, h)
      else
        (case update (int (length metrics)) h of
           (w, Raised e, h1) \<Rightarrow> (w, Raised e, h1)
         | (w, Returned u, h1) \<Rightarrow>
             (case true_div (int (length metrics)) (total_steps h1) of
                Raised e \<Rightarrow> (w, Raised e, h1)
              | Returned q \<Rightarrow> (w, Returned q, h1\<lparr>progress := q\<rparr>))))"

subsection \<open>InferenceCallback and ExportCallback\<close>

record inference_callback = thread_progress_callback +
  inference_dir :: "string option"
  draw_dir :: "string option"

definition inference_init :: "int \<Rightarrow> real \<Rightarrow> inference_callback" where
  "inference_init tot now =
     thread_progress_callback.extend (init tot now) (inference_callback.fields None None)"

definition set_inference_dir ::
  "string \<Rightarrow> 'a inference_callback_scheme \<Rightarrow> 'a inference_callback_scheme" where
  "set_inference_dir path h = h\<lparr>inference_dir := Some path\<rparr>"

definition set_draw_dir ::
  "string \<Rightarrow> 'a inference_callback_scheme \<Rightarrow> 'a inference_callback_scheme" where
  "set_draw_dir path h = h\<lparr>draw_dir := Some path\<rparr>"

record export_callback = thread_progress_callback +
  export_file :: "string option"

definition export_init :: "int \<Rightarrow> real \<Rightarrow> export_callback" where
  "export_init tot now =
     thread_progress_callback.extend (init tot now) (export_callback.fields None)"

definition set_export_file ::
  "string \<Rightarrow> 'a export_callback_scheme \<Rightarrow> 'a export_callback_scheme" where
  "set_export_file path h = h\<lparr>export_file := Some path\<rparr>"

subsection \<open>Sequences of calls\<close>

text \<open>
  The methods every class inherits unchanged. A caller may catch an exception and go on
  using the object, so a sequence of calls continues from the object as the failed call
  left it.
\<close>

datatype common_op =
    Update int
  | IsFinished
  | GetRemainingTime real
  | ForceFinish
  | RegisterThread thread
  | Start
  | Join

fun exec_common ::
  "common_op \<Rightarrow> 'a thread_progress_callback_scheme \<Rightarrow> 'a thread_progress_callback_scheme" where
  "exec_common (Update step) h = snd (snd (update step h))"
| "exec_common IsFinished h = h"
| "exec_common (GetRemainingTime now) h = h"
| "exec_common ForceFinish h = force_finish h"
| "exec_common (RegisterThread t) h = register_thread t h"
| "exec_common Start h = snd (start h)"
| "exec_common Join h = snd (join h)"

text \<open>The base class: the inherited methods and its own \<^verbatim>\<open>get_progress\<close>.\<close>

datatype base_op = Common common_op | GetProgress

fun exec_base :: "base_op \<Rightarrow> thread_progress_callback \<Rightarrow> thread_progress_callback" where
  "exec_base (Common c) h = exec_common c h"
| "exec_base GetProgress h = h"

datatype 'm train_op =
    TCommon common_op
  | TGetProgress "'m list"
  | TGetMetrics "'m list"
  | SetBestCkptFile string
  | SetLastCkptFile string
  | SetResultDir string
  | SetMetricFile string

fun exec_train :: "'m train_op \<Rightarrow> train_callback \<Rightarrow> train_callback" where
  "exec_train (TCommon c) h = exec_common c h"
| "exec_train (TGetProgress metrics) h = snd (snd (train_get_progress metrics h))"
| "exec_train (TGetMetrics metrics) h = h"
| "exec_train (SetBestCkptFile path) h = set_best_ckpt_file path h"
| "exec_train (SetLastCkptFile path) h = set_last_ckpt_file path h"
| "exec_train (SetResultDir path) h = set_result_dir path h"
| "exec_train (SetMetricFile path) h = set_metric_file path h"

datatype inference_op =
    ICommon common_op
  | IGetProgress
  | SetInferenceDir string
  | SetDrawDir string

fun exec_inference :: "inference_op \<Rightarrow> inference_callback \<Rightarrow> inference_callback" where
  "exec_inference (ICommon c) h = exec_common c h"
| "exec_inference IGetProgress h = h"
| "exec_inference (SetInferenceDir path) h = set_inference_dir path h"
| "exec_inference (SetDrawDir path) h = set_draw_dir path h"

datatype export_op =
    ECommon common_op
  | EGetProgress
  | SetExportFile string

fun exec_export :: "export_op \<Rightarrow> export_callback \<Rightarrow> export_callback" where
  "exec_export (ECommon c) h = exec_common c h"
| "exec_export EGetProgress h = h"
| "exec_export (SetExportFile path) h = set_export_file path h"

text \<open>The objects a sequence of calls passes through, the first one included.\<close>

primrec states :: "('op \<Rightarrow> 's \<Rightarrow> 's) \<Rightarrow> 'op list \<Rightarrow> 's \<Rightarrow> 's list" where
  "states exec [] h = [h]"
| "states exec (c # cs) h = h # states exec cs (exec c h)"

text \<open>
  The step a call asks the object to record, if any: the argument of \<^verbatim>\<open>update\<close>, and for
  the training variant's \<^verbatim>\<open>get_progress\<close> the number of metric records (none when the list
  is empty, since the method then returns before \<^verbatim>\<open>update\<close>).
\<close>

fun common_steps :: "common_op \<Rightarrow> int list" where
  "common_steps (Update step) = [step]"
| "common_steps c = []"

fun base_steps :: "base_op \<Rightarrow> int list" where
  "base_steps (Common c) = common_steps c"
| "base_steps GetProgress = []"

fun train_steps :: "'m train_op \<Rightarrow> int list" where
  "train_steps (TCommon c) = common_steps c"
| "train_steps (TGetProgress metrics) =
     (if length metrics = 0 then [] else [int (length metrics)])"
| "train_steps c = []"

fun inference_steps :: "inference_op \<Rightarrow> int list" where
  "inference_steps (ICommon c) = common_steps c"
| "inference_steps c = []"

fun export_steps :: "export_op \<Rightarrow> int list" where
  "export_steps (ECommon c) = common_steps c"
| "export_steps c = []"

section \<open>Facts about single calls\<close>

lemma update_total_steps: "total_steps (snd (snd (update step h))) = total_steps h"
  by (simp add: update_def true_div_def)

lemma update_keeps_finished: "finished h \<Longrightarrow> finished (snd (snd (update step h)))"
  by (simp add: update_def)

lemma update_progress:
  "0 < total_steps h \<Longrightarrow>
   progress (snd (snd (update step h))) =
     (if finished h then progress h else of_int step / of_int (total_steps h))"
  by (simp add: update_def true_div_def)

lemma start_fields:
  "total_steps (snd (start h)) = total_steps h"
  "finished (snd (start h)) = finished h"
  "progress (snd (start h)) = progress h"
  by (simp_all add: start_def split: option.splits outcome.splits)

lemma join_fields:
  "total_steps (snd (join h)) = total_steps h"
  "finished (snd (join h)) = finished h"
  "progress (snd (join h)) = progress h"
  by (simp_all add: join_def split: option.splits outcome.splits)

lemma train_get_progress_total_steps:
  "total_steps (snd (snd (train_get_progress ms h))) = total_steps h"
  by (simp add: train_get_progress_def update_def true_div_def)

lemma train_get_progress_keeps_finished:
  "finished h \<Longrightarrow> finished (snd (snd (train_get_progress ms h)))"
  by (simp add: train_get_progress_def update_def true_div_def)

lemma train_get_progress_progress:
  assumes "0 < total_steps h"
  shows "progress (snd (snd (train_get_progress ms h))) =
           (if length ms = 0 then progress h
            else of_int (int (length ms)) / of_int (total_steps h))"
  using assms by (simp add: train_get_progress_def update_def true_div_def)

subsection \<open>\<^verbatim>\<open>total_steps\<close> across one call\<close>

lemma exec_common_total_steps: "total_steps (exec_common c h) = total_steps h"
  by (cases c)
     (simp_all add: update_total_steps start_fields join_fields force_finish_def
        register_thread_def)

lemma exec_base_total_steps: "total_steps (exec_base c h) = total_steps h"
  by (cases c) (simp_all add: exec_common_total_steps)

lemma exec_train_total_steps: "total_steps (exec_train c h) = total_steps h"
  by (cases c)
     (simp_all add: exec_common_total_steps train_get_progress_total_steps
        set_best_ckpt_file_def set_last_ckpt_file_def set_result_dir_def set_metric_file_def)

lemma exec_inference_total_steps: "total_steps (exec_inference c h) = total_steps h"
  by (cases c) (simp_all add: exec_common_total_steps set_inference_dir_def set_draw_dir_def)

lemma exec_export_total_steps: "total_steps (exec_export c h) = total_steps h"
  by (cases c) (simp_all add: exec_common_total_steps set_export_file_def)

subsection \<open>\<^verbatim>\<open>finished\<close> across one call\<close>

lemma exec_common_keeps_finished: "finished h \<Longrightarrow> finished (exec_common c h)"
  by (cases c)
     (simp_all add: update_keeps_finished start_fields join_fields force_finish_def
        register_thread_def)

lemma exec_base_keeps_finished: "finished h \<Longrightarrow> finished (exec_base c h)"
  by (cases c) (simp_all add: exec_common_keeps_finished)

lemma exec_train_keeps_finished: "finished h \<Longrightarrow> finished (exec_train c h)"
  by (cases c)
     (simp_all add: exec_common_keeps_finished train_get_progress_keeps_finished
        set_best_ckpt_file_def set_last_ckpt_file_def set_result_dir_def set_metric_file_def)

lemma exec_inference_keeps_finished: "finished h \<Longrightarrow> finished (exec_inference c h)"
  by (cases c) (simp_all add: exec_common_keeps_finished set_inference_dir_def set_draw_dir_def)

lemma exec_export_keeps_finished: "finished h \<Longrightarrow> finished (exec_export c h)"
  by (cases c) (simp_all add: exec_common_keeps_finished set_export_file_def)

subsection \<open>\<^verbatim>\<open>progress\<close> across one call\<close>

text \<open>
  With a positive \<^verbatim>\<open>total_steps\<close> a call either leaves the stored progress alone or stores
  the quotient of the step it was given.
\<close>

lemma exec_common_progress:
  assumes "0 < total_steps h"
  shows "progress (exec_common c h) = progress h
       \<or> (\<exists>s\<in>set (common_steps c).
             progress (exec_common c h) = of_int s / of_int (total_steps h))"
  using assms
  by (cases c)
     (simp_all add: update_progress start_fields join_fields force_finish_def
        register_thread_def)

lemma exec_base_progress:
  assumes "0 < total_steps h"
  shows "progress (exec_base c h) = progress h
       \<or> (\<exists>s\<in>set (base_steps c).
             progress (exec_base c h) = of_int s / of_int (total_steps h))"
  using assms exec_common_progress by (cases c) simp_all

lemma exec_train_progress:
  assumes "0 < total_steps h"
  shows "progress (exec_train c h) = progress h
       \<or> (\<exists>s\<in>set (train_steps c).
             progress (exec_train c h) = of_int s / of_int (total_steps h))"
  using assms exec_common_progress [of h]
  by (cases c)
     (simp_all add: train_get_progress_progress
        set_best_ckpt_file_def set_last_ckpt_file_def set_result_dir_def set_metric_file_def)

lemma exec_inference_progress:
  assumes "0 < total_steps h"
  shows "progress (exec_inference c h) = progress h
       \<or> (\<exists>s\<in>set (inference_steps c).
             progress (exec_inference c h) = of_int s / of_int (total_steps h))"
  using assms exec_common_progress [of h]
  by (cases c) (simp_all add: set_inference_dir_def set_draw_dir_def)

lemma exec_export_progress:
  assumes "0 < total_steps h"
  shows "progress (exec_export c h) = progress h
       \<or> (\<exists>s\<in>set (export_steps c).
             progress (exec_export c h) = of_int s / of_int (total_steps h))"
  using assms exec_common_progress [of h]
  by (cases c) (simp_all add: set_export_file_def)

subsection \<open>Floats within range\<close>


lemma overflow_threshold_gt: "2 ^ 1023 < overflow_threshold"
proof -
  have "(2::real) ^ 970 < 2 ^ 1023" by (rule power_strict_increasing) simp_all
  moreover have "(2::real) ^ 1024 = 2 * 2 ^ 1023" by simp
  ultimately show ?thesis unfolding overflow_threshold_def by linarith
qed


lemma in_float_range_small: "\<bar>x\<bar> \<le> 2 ^ 1023 \<Longrightarrow> in_float_range x"
  using overflow_threshold_gt by (simp add: in_float_range_def)

section \<open>Facts about sequences of calls\<close>

lemma fold_preserves:
  assumes "\<And>c s. P s \<Longrightarrow> P (f c s)" and "P s"
  shows "P (fold f cs s)"
  using assms(2) by (induction cs arbitrary: s) (simp_all add: assms(1))

lemma fold_keeps_field:
  assumes "\<And>c s. g (f c s) = g s"
  shows "g (fold f cs s) = g s"
  by (induction cs arbitrary: s) (simp_all add: assms)

lemma states_hd: "hd (states exec cs h) = h"
  by (cases cs) simp_all

lemma states_not_Nil: "states exec cs h \<noteq> []"
  by (cases cs) simp_all

lemma sorted_Cons_hd:
  fixes x :: "'a::linorder"
  assumes "sorted ys" and "ys \<noteq> []" and "x \<le> hd ys"
  shows "sorted (x # ys)"
  using assms by (cases ys) auto

text \<open>
  If the steps still to come are in non-decreasing order and none of them lies below the
  progress already stored, the progress values of the objects passed through are in
  non-decreasing order. The induction keeps both conditions for the rest of the sequence.
\<close>

lemma states_progress_sorted:
  fixes exec :: "'op \<Rightarrow> 'a thread_progress_callback_scheme \<Rightarrow> 'a thread_progress_callback_scheme"
    and steps :: "'op \<Rightarrow> int list"
  assumes tot: "\<And>c h. total_steps (exec c h) = total_steps h"
    and prog: "\<And>c h. 0 < total_steps h \<Longrightarrow>
                 progress (exec c h) = progress h
                 \<or> (\<exists>s\<in>set (steps c). progress (exec c h) = of_int s / of_int (total_steps h))"
  shows "0 < total_steps h \<Longrightarrow> sorted (concat (map steps cs)) \<Longrightarrow>
         \<forall>s\<in>set (concat (map steps cs)). progress h \<le> of_int s / of_int (total_steps h) \<Longrightarrow>
         sorted (map progress (states exec cs h))"
proof (induction cs arbitrary: h)
  case Nil
  then show ?case by simp
next
  case (Cons c cs)
  let ?h' = "exec c h"
  let ?rest = "concat (map steps cs)"
  have pos: "0 < total_steps ?h'" using Cons.prems(1) by (simp add: tot)
  have srt: "sorted ?rest" using Cons.prems(2) by (simp add: sorted_append)
  have later: "\<forall>s\<in>set (steps c). \<forall>r\<in>set ?rest. s \<le> r"
    using Cons.prems(2) by (simp add: sorted_append)
  have bound_c: "\<forall>s\<in>set (steps c). progress h \<le> of_int s / of_int (total_steps h)"
    and bound_rest: "\<forall>r\<in>set ?rest. progress h \<le> of_int r / of_int (total_steps h)"
    using Cons.prems(3) by simp_all
  have up: "progress h \<le> progress ?h'"
    using prog [OF Cons.prems(1), of c] bound_c by auto
  have bound': "\<forall>r\<in>set ?rest. progress ?h' \<le> of_int r / of_int (total_steps ?h')"
  proof
    fix r assume r: "r \<in> set ?rest"
    from prog [OF Cons.prems(1), of c]
    show "progress ?h' \<le> of_int r / of_int (total_steps ?h')"
    proof
      assume "progress ?h' = progress h"
      then show ?thesis using bound_rest r by (auto simp add: tot)
    next
      assume "\<exists>s\<in>set (steps c). progress ?h' = of_int s / of_int (total_steps h)"
      then obtain s where s: "s \<in> set (steps c)"
        and eq: "progress ?h' = of_int s / of_int (total_steps h)" by blast
      from later s r have "s \<le> r" by blast
      then have "(of_int s :: real) / of_int (total_steps h) \<le> of_int r / of_int (total_steps h)"
        using Cons.prems(1) by (simp add: divide_right_mono)
      then show ?thesis using eq by (simp add: tot)
    qed
  qed
  have "sorted (map progress (states exec cs ?h'))"
    by (rule Cons.IH [OF pos srt bound'])
  moreover have "map progress (states exec cs ?h') \<noteq> []"
    by (simp add: states_not_Nil)
  moreover have "progress h \<le> hd (map progress (states exec cs ?h'))"
    using up by (simp add: hd_map states_not_Nil states_hd)
  ultimately have "sorted (progress h # map progress (states exec cs ?h'))"
    by (rule sorted_Cons_hd)
  then show ?case by simp
qed

section \<open>Properties\<close>

subsection \<open>Reaching or passing \<^verbatim>\<open>total_steps\<close>\<close>

text \<open>
  The quotient is stored as it is, so a step beyond \<^verbatim>\<open>total_steps\<close> leaves a progress above
  1: with \<^verbatim>\<open>total_steps = 2\<close>, \<^verbatim>\<open>update(4)\<close> on a new object stores 2.
\<close>

theorem update_clamp_counterexample:
  "0 < total_steps (init 2 0) \<and> \<not> finished (init 2 0) \<and> total_steps (init 2 0) \<le> 4
   \<and> get_progress (snd (snd (update 4 (init 2 0)))) = 2
   \<and> \<not> get_progress (snd (snd (update 4 (init 2 0)))) \<le> 1"
  by (simp add: init_def update_def true_div_def get_progress_def)

text \<open>
  C1 (as amended). For every object with \<^verbatim>\<open>total_steps > 0\<close> that is not yet finished,
  \<^verbatim>\<open>update(step)\<close> with \<^verbatim>\<open>step >= total_steps\<close> sets \<^verbatim>\<open>finished\<close> to true (the flag is
  assigned before the quotient is computed) and does not clamp: when the quotient
  \<^verbatim>\<open>step / total_steps\<close> is within the range of the floats, the call returns, the quotient is
  what is stored, and \<^verbatim>\<open>get_progress()\<close> afterwards returns it, a value of at least 1.
\<close>

theorem update_past_total:
  assumes "0 < total_steps h" and "\<not> finished h" and "total_steps h \<le> step"
  shows "is_finished (snd (snd (update step h)))
       \<and> (in_float_range (of_int step / of_int (total_steps h)) \<longrightarrow>
            update step h =
              ([], Returned (),
               h\<lparr>finished := True, progress := of_int step / of_int (total_steps h)\<rparr>)
            \<and> get_progress (snd (snd (update step h))) = of_int step / of_int (total_steps h)
            \<and> 1 \<le> get_progress (snd (snd (update step h))))"
  using assms by (simp add: update_def true_div_def get_progress_def is_finished_def)

theorem update_past_total_witness:
  "0 < total_steps (init 4 0) \<and> \<not> finished (init 4 0) \<and> total_steps (init 4 0) \<le> 6
   \<and> in_float_range (of_int 6 / of_int (total_steps (init 4 0)))
   \<and> is_finished (snd (snd (update 6 (init 4 0))))
   \<and> get_progress (snd (snd (update 6 (init 4 0)))) = 3 / 2
   \<and> 1 \<le> get_progress (snd (snd (update 6 (init 4 0))))"
proof -
  have h: "0 < total_steps (init 4 0)" "\<not> finished (init 4 0)" "total_steps (init 4 0) \<le> 6"
    by (simp_all add: init_def)
  have q: "of_int 6 / of_int (total_steps (init 4 0)) = (3 / 2 :: real)"
    by (simp add: init_def)
  have r: "in_float_range (of_int 6 / of_int (total_steps (init 4 0)))"
    unfolding q by (rule in_float_range_small) simp
  from update_past_total [OF h] r
  have "is_finished (snd (snd (update 6 (init 4 0))))"
    and "get_progress (snd (snd (update 6 (init 4 0)))) = of_int 6 / of_int (total_steps (init 4 0))"
    and "1 \<le> get_progress (snd (snd (update 6 (init 4 0))))"
    by blast+
  with h r q show ?thesis by simp
qed

subsection \<open>Order of the stored progress\<close>

text \<open>
  \<^verbatim>\<open>update\<close> stores the quotient of whatever step it is given: after \<^verbatim>\<open>update(5)\<close>,
  \<^verbatim>\<open>update(3)\<close> on an object with \<^verbatim>\<open>total_steps = 10\<close> lowers the progress from 1/2 to 3/10.
\<close>

theorem progress_non_decreasing_counterexample:
  "progress (exec_base (Common (Update 3)) (exec_base (Common (Update 5)) (init 10 0)))
     < progress (exec_base (Common (Update 5)) (init 10 0))"
  by (simp add: init_def update_def true_div_def)

text \<open>
  C2 (as amended). For every object with \<^verbatim>\<open>total_steps > 0\<close>, of the base class or of any of
  the three subclasses, and every sequence of calls of its methods whose steps (the
  arguments of \<^verbatim>\<open>update\<close> and, in the training variant, the metric counts seen by
  \<^verbatim>\<open>get_progress\<close>) are in non-decreasing order and not below the progress already stored
  (for a new object: not negative), the stored progress after each call is greater than or
  equal to its value before the call.
\<close>

theorem progress_non_decreasing_ordered_steps:
  "(0 < total_steps b \<and> sorted (concat (map base_steps bs))
      \<and> (\<forall>s\<in>set (concat (map base_steps bs)). progress b \<le> of_int s / of_int (total_steps b))
    \<longrightarrow> sorted (map progress (states exec_base bs b)))
   \<and> (0 < total_steps t \<and> sorted (concat (map train_steps ts))
      \<and> (\<forall>s\<in>set (concat (map train_steps ts)). progress t \<le> of_int s / of_int (total_steps t))
    \<longrightarrow> sorted (map progress (states exec_train ts t)))
   \<and> (0 < total_steps i \<and> sorted (concat (map inference_steps is))
      \<and> (\<forall>s\<in>set (concat (map inference_steps is)).
            progress i \<le> of_int s / of_int (total_steps i))
    \<longrightarrow> sorted (map progress (states exec_inference is i)))
   \<and> (0 < total_steps e \<and> sorted (concat (map export_steps es))
      \<and> (\<forall>s\<in>set (concat (map export_steps es)). progress e \<le> of_int s / of_int (total_steps e))
    \<longrightarrow> sorted (map progress (states exec_export es e)))"
proof (intro conjI impI)
  assume "0 < total_steps b \<and> sorted (concat (map base_steps bs))
      \<and> (\<forall>s\<in>set (concat (map base_steps bs)). progress b \<le> of_int s / of_int (total_steps b))"
  then show "sorted (map progress (states exec_base bs b))"
    using states_progress_sorted [of exec_base base_steps b bs]
    by (simp add: exec_base_total_steps exec_base_progress)
next
  assume "0 < total_steps t \<and> sorted (concat (map train_steps ts))
      \<and> (\<forall>s\<in>set (concat (map train_steps ts)). progress t \<le> of_int s / of_int (total_steps t))"
  then show "sorted (map progress (states exec_train ts t))"
    using states_progress_sorted [of exec_train train_steps t ts]
    by (simp add: exec_train_total_steps exec_train_progress)
next
  assume "0 < total_steps i \<and> sorted (concat (map inference_steps is))
      \<and> (\<forall>s\<in>set (concat (map inference_steps is)).
            progress i \<le> of_int s / of_int (total_steps i))"
  then show "sorted (map progress (states exec_inference is i))"
    using states_progress_sorted [of exec_inference inference_steps i "is"]
    by (simp add: exec_inference_total_steps exec_inference_progress)
next
  assume "0 < total_steps e \<and> sorted (concat (map export_steps es))
      \<and> (\<forall>s\<in>set (concat (map export_steps es)). progress e \<le> of_int s / of_int (total_steps e))"
  then show "sorted (map progress (states exec_export es e))"
    using states_progress_sorted [of exec_export export_steps e es]
    by (simp add: exec_export_total_steps exec_export_progress)
qed

theorem progress_non_decreasing_ordered_steps_witness:
  "0 < total_steps (init 4 0)
   \<and> concat (map base_steps
        [Common (Update 1), GetProgress, Common (Update 3), Common ForceFinish, Common (Update 9)])
       = [1, 3, 9]
   \<and> progress (init 4 0) = 0
   \<and> sorted (map progress (states exec_base
        [Common (Update 1), GetProgress, Common (Update 3), Common ForceFinish, Common (Update 9)]
        (init 4 0)))
   \<and> 0 < total_steps (train_init 2 0)
   \<and> concat (map train_steps
        [TGetProgress [], TGetProgress [()], TCommon (Update 1), TGetProgress [(), (), ()]])
       = [1, 1, 3]
   \<and> progress (train_init 2 0) = 0
   \<and> sorted (map progress (states exec_train
        [TGetProgress [], TGetProgress [()], TCommon (Update 1), TGetProgress [(), (), ()]]
        (train_init 2 0)))
   \<and> 0 < total_steps (inference_init 5 0)
   \<and> concat (map inference_steps
        [ICommon (Update 0), SetInferenceDir ''out'', ICommon (Update 2), IGetProgress,
         ICommon (Update 5)])
       = [0, 2, 5]
   \<and> progress (inference_init 5 0) = 0
   \<and> sorted (map progress (states exec_inference
        [ICommon (Update 0), SetInferenceDir ''out'', ICommon (Update 2), IGetProgress,
         ICommon (Update 5)]
        (inference_init 5 0)))
   \<and> 0 < total_steps (export_init 1 0)
   \<and> concat (map export_steps
        [SetExportFile ''model.onnx'', ECommon (Update 1), EGetProgress, ECommon (Update 1)])
       = [1, 1]
   \<and> progress (export_init 1 0) = 0
   \<and> sorted (map progress (states exec_export
        [SetExportFile ''model.onnx'', ECommon (Update 1), EGetProgress, ECommon (Update 1)]
        (export_init 1 0)))"
proof -
  let ?bs = "[Common (Update 1), GetProgress, Common (Update 3), Common ForceFinish, Common (Update 9)]"
  let ?ts = "[TGetProgress [], TGetProgress [()], TCommon (Update 1), TGetProgress [(), (), ()]]"
  let ?is = "[ICommon (Update 0), SetInferenceDir ''out'', ICommon (Update 2), IGetProgress,
         ICommon (Update 5)]"
  let ?es = "[SetExportFile ''model.onnx'', ECommon (Update 1), EGetProgress, ECommon (Update 1)]"
  have b1: "0 < total_steps (init 4 0)" and b3: "progress (init 4 0) = 0"
    by (simp_all add: init_def)
  have b2: "concat (map base_steps ?bs) = [1, 3, 9]" by simp
  have t1: "0 < total_steps (train_init 2 0)" and t3: "progress (train_init 2 0) = 0"
    by (simp_all add: train_init_def init_def thread_progress_callback.defs)
  have t2: "concat (map train_steps ?ts) = [1, 1, 3]" by simp
  have i1: "0 < total_steps (inference_init 5 0)" and i3: "progress (inference_init 5 0) = 0"
    by (simp_all add: inference_init_def init_def thread_progress_callback.defs)
  have i2: "concat (map inference_steps ?is) = [0, 2, 5]" by simp
  have e1: "0 < total_steps (export_init 1 0)" and e3: "progress (export_init 1 0) = 0"
    by (simp_all add: export_init_def init_def thread_progress_callback.defs)
  have e2: "concat (map export_steps ?es) = [1, 1]" by simp
  have hb: "0 < total_steps (init 4 0) \<and> sorted (concat (map base_steps ?bs))
      \<and> (\<forall>s\<in>set (concat (map base_steps ?bs)).
            progress (init 4 0) \<le> of_int s / of_int (total_steps (init 4 0)))"
    unfolding b2 b3 using b1 by simp
  have ht: "0 < total_steps (train_init 2 0) \<and> sorted (concat (map train_steps ?ts))
      \<and> (\<forall>s\<in>set (concat (map train_steps ?ts)).
            progress (train_init 2 0) \<le> of_int s / of_int (total_steps (train_init 2 0)))"
    unfolding t2 t3 using t1 by simp
  have hi: "0 < total_steps (inference_init 5 0) \<and> sorted (concat (map inference_steps ?is))
      \<and> (\<forall>s\<in>set (concat (map inference_steps ?is)).
            progress (inference_init 5 0) \<le> of_int s / of_int (total_steps (inference_init 5 0)))"
    unfolding i2 i3 using i1 by simp
  have he: "0 < total_steps (export_init 1 0) \<and> sorted (concat (map export_steps ?es))
      \<and> (\<forall>s\<in>set (concat (map export_steps ?es)).
            progress (export_init 1 0) \<le> of_int s / of_int (total_steps (export_init 1 0)))"
    unfolding e2 e3 using e1 by simp
  from progress_non_decreasing_ordered_steps
         [of "init 4 0" ?bs "train_init 2 0" ?ts "inference_init 5 0" ?is "export_init 1 0" ?es]
       hb ht hi he
  have "sorted (map progress (states exec_base ?bs (init 4 0)))"
    and "sorted (map progress (states exec_train ?ts (train_init 2 0)))"
    and "sorted (map progress (states exec_inference ?is (inference_init 5 0)))"
    and "sorted (map progress (states exec_export ?es (export_init 1 0)))"
    by blast+
  with b1 b2 b3 t1 t2 t3 i1 i2 i3 e1 e2 e3 show ?thesis by blast
qed

subsection \<open>Division by a zero \<^verbatim>\<open>total_steps\<close>\<close>

text \<open>
  C3. Nothing guards against \<^verbatim>\<open>total_steps = 0\<close>: on an object constructed with
  \<^verbatim>\<open>total_steps = 0\<close>, \<^verbatim>\<open>update(step)\<close> with \<^verbatim>\<open>step >= 0\<close> evaluates
  \<^verbatim>\<open>step / total_steps\<close> with divisor 0 and fails with \<^verbatim>\<open>ZeroDivisionError\<close> instead of
  returning. The same holds for every unfinished object whose \<^verbatim>\<open>total_steps\<close> is 0 (the call
  leaves \<^verbatim>\<open>finished\<close> set, since that assignment comes first), and for the training
  variant's \<^verbatim>\<open>get_progress\<close> on a non-empty metric list.
\<close>

theorem update_zero_total_steps:
  assumes "0 \<le> step"
  shows "fst (snd (update step (init 0 now))) = Raised ZeroDivisionError
       \<and> (total_steps h = 0 \<and> \<not> finished h \<longrightarrow>
            update step h = ([], Raised ZeroDivisionError, h\<lparr>finished := True\<rparr>))
       \<and> (total_steps t = 0 \<and> metrics \<noteq> [] \<longrightarrow>
            fst (snd (train_get_progress metrics t)) = Raised ZeroDivisionError)"
  using assms by (simp add: update_def true_div_def init_def train_get_progress_def)

theorem update_zero_total_steps_witness:
  "(0::int) \<le> 5
   \<and> fst (snd (update 5 (init 0 0))) = Raised ZeroDivisionError
   \<and> total_steps (train_init 0 0) = 0 \<and> \<not> finished (train_init 0 0)
   \<and> update 5 (train_init 0 0)
       = ([], Raised ZeroDivisionError, (train_init 0 0)\<lparr>finished := True\<rparr>)
   \<and> [()] \<noteq> []
   \<and> fst (snd (train_get_progress [()] (train_init 0 0))) = Raised ZeroDivisionError"
proof -
  have h: "total_steps (train_init 0 0) = 0" "\<not> finished (train_init 0 0)"
    by (simp_all add: train_init_def init_def thread_progress_callback.defs)
  have s: "(0::int) \<le> 5" by simp
  from update_zero_total_steps [OF s, of 0 "train_init 0 0" "train_init 0 0" "[()]"] h s
  show ?thesis by simp
qed

subsection \<open>\<^verbatim>\<open>update\<close> after completion\<close>

text \<open>
  C4. On every object whose \<^verbatim>\<open>finished\<close> flag is true, \<^verbatim>\<open>update(step)\<close> with any step emits
  a warning, returns normally, does not reset \<^verbatim>\<open>finished\<close> and leaves the stored progress
  (indeed the whole object) unchanged.
\<close>

theorem update_after_finished:
  assumes "finished h"
  shows "update step h = ([''Callback has already ended''], Returned (), h)
       \<and> fst (update step h) \<noteq> []
       \<and> finished (snd (snd (update step h)))
       \<and> progress (snd (snd (update step h))) = progress h"
  using assms by (simp add: update_def)

theorem update_after_finished_witness:
  "finished (force_finish (init 3 0))
   \<and> update 2 (force_finish (init 3 0))
       = ([''Callback has already ended''], Returned (), force_finish (init 3 0))
   \<and> progress (snd (snd (update 2 (force_finish (init 3 0))))) = 0"
proof -
  have f: "finished (force_finish (init 3 0))" by (simp add: force_finish_def)
  from update_after_finished [OF f, of 2] f
  show ?thesis by (simp add: force_finish_def init_def)
qed

subsection \<open>The \<^verbatim>\<open>finished\<close> flag never goes back\<close>

text \<open>
  C5. Once \<^verbatim>\<open>is_finished()\<close> is true it is true after every later sequence of calls: of
  \<^verbatim>\<open>update\<close>, \<^verbatim>\<open>get_progress\<close>, \<^verbatim>\<open>get_remaining_time\<close>, \<^verbatim>\<open>force_finish\<close>,
  \<^verbatim>\<open>register_thread\<close>, \<^verbatim>\<open>start\<close>, \<^verbatim>\<open>join\<close> and the path setters, for the base class and
  for each of the three subclasses, also when some of the calls raise.
\<close>

theorem finished_stays_true:
  "(is_finished b \<longrightarrow> is_finished (fold exec_base bs b))
   \<and> (is_finished t \<longrightarrow> is_finished (fold exec_train ts t))
   \<and> (is_finished i \<longrightarrow> is_finished (fold exec_inference is i))
   \<and> (is_finished e \<longrightarrow> is_finished (fold exec_export es e))"
  unfolding is_finished_def
  by (intro conjI impI fold_preserves [where P = finished])
     (simp_all add: exec_base_keeps_finished exec_train_keeps_finished
        exec_inference_keeps_finished exec_export_keeps_finished)

theorem finished_stays_true_witness:
  "is_finished (force_finish (init 3 0))
   \<and> is_finished (fold exec_base
        [Common (Update 1), GetProgress, Common (RegisterThread Initial), Common Start,
         Common Join, Common (GetRemainingTime 7)]
        (force_finish (init 3 0)))
   \<and> is_finished (snd (snd (update 2 (train_init 2 0))))
   \<and> is_finished (fold exec_train
        [TGetProgress [()], SetBestCkptFile ''best.pt'', TCommon (Update 0), TCommon Join]
        (snd (snd (update 2 (train_init 2 0)))))
   \<and> is_finished (force_finish (inference_init 5 0))
   \<and> is_finished (fold exec_inference
        [SetInferenceDir ''out'', ICommon (Update 2), SetDrawDir ''draw'', IGetProgress]
        (force_finish (inference_init 5 0)))
   \<and> is_finished (force_finish (export_init 1 0))
   \<and> is_finished (fold exec_export
        [SetExportFile ''model.onnx'', ECommon (Update 0), ECommon Start]
        (force_finish (export_init 1 0)))"
proof -
  have b: "is_finished (force_finish (init 3 0))"
    and i: "is_finished (force_finish (inference_init 5 0))"
    and e: "is_finished (force_finish (export_init 1 0))"
    by (simp_all add: is_finished_def force_finish_def)
  have t: "is_finished (snd (snd (update 2 (train_init 2 0))))"
    by (simp add: is_finished_def update_def true_div_def train_init_def init_def
          thread_progress_callback.defs)
  from finished_stays_true
    [of "force_finish (init 3 0)" _ "snd (snd (update 2 (train_init 2 0)))" _
        "force_finish (inference_init 5 0)" _ "force_finish (export_init 1 0)"]
    b t i e
  show ?thesis by blast
qed

subsection \<open>Steps below \<^verbatim>\<open>total_steps\<close>\<close>

text \<open>
  C6. For \<^verbatim>\<open>total_steps > 0\<close> and an integer step with \<^verbatim>\<open>0 <= step < total_steps\<close>, after
  \<^verbatim>\<open>update(step)\<close> on an object that is not finished, the base-class \<^verbatim>\<open>get_progress()\<close>
  returns \<^verbatim>\<open>step / total_steps\<close> and \<^verbatim>\<open>is_finished()\<close> returns false.
\<close>

theorem update_before_total:
  assumes "0 < total_steps h" and "\<not> finished h" and "0 \<le> step" and "step < total_steps h"
  shows "update step h = ([], Returned (), h\<lparr>progress := of_int step / of_int (total_steps h)\<rparr>)
       \<and> get_progress (snd (snd (update step h))) = of_int step / of_int (total_steps h)
       \<and> is_finished (snd (snd (update step h))) = False"
  using assms by (simp add: update_def true_div_def get_progress_def is_finished_def)

theorem update_before_total_witness:
  "0 < total_steps (init 4 0) \<and> \<not> finished (init 4 0) \<and> (0::int) \<le> 3
   \<and> 3 < total_steps (init 4 0)
   \<and> get_progress (snd (snd (update 3 (init 4 0)))) = 3 / 4
   \<and> is_finished (snd (snd (update 3 (init 4 0)))) = False"
  using update_before_total [of "init 4 0" 3]
  by (simp add: init_def get_progress_def is_finished_def)

subsection \<open>Remaining time\<close>




subsection \<open>\<^verbatim>\<open>force_finish\<close>\<close>

text \<open>
  C8. In every state of the object, whatever its progress and whether it was finished or
  not, \<^verbatim>\<open>is_finished()\<close> is true after \<^verbatim>\<open>force_finish()\<close>.
\<close>

theorem force_finish_is_finished: "is_finished (force_finish h) = True"
  by (simp add: is_finished_def force_finish_def)

subsection \<open>\<^verbatim>\<open>total_steps\<close> is fixed\<close>

text \<open>
  C9. After every sequence of calls on an object of the base class or of a subclass,
  \<^verbatim>\<open>total_steps\<close> is what the constructor was given; more generally no call changes the
  field.
\<close>

theorem total_steps_fixed:
  "total_steps (fold exec_base bs (init n now)) = n
   \<and> total_steps (fold exec_train ts (train_init n now)) = n
   \<and> total_steps (fold exec_inference is (inference_init n now)) = n
   \<and> total_steps (fold exec_export es (export_init n now)) = n
   \<and> total_steps (fold exec_base bs b) = total_steps b
   \<and> total_steps (fold exec_train ts t) = total_steps t
   \<and> total_steps (fold exec_inference is i) = total_steps i
   \<and> total_steps (fold exec_export es e) = total_steps e"
  by (simp add: fold_keeps_field [where g = total_steps] exec_base_total_steps
        exec_train_total_steps exec_inference_total_steps exec_export_total_steps init_def
        train_init_def inference_init_def export_init_def thread_progress_callback.defs)

subsection \<open>The training variant's \<^verbatim>\<open>get_progress\<close>\<close>

text \<open>
  C10. When the metric function returns an empty list, \<^verbatim>\<open>TrainCallback.get_progress\<close>
  returns 0 and leaves the object unchanged. When it returns a non-empty list of length n
  (and \<^verbatim>\<open>total_steps\<close> is not 0, so that the quotient exists), the method stores and returns
  \<^verbatim>\<open>n / total_steps\<close>, and \<^verbatim>\<open>finished\<close> is true afterwards exactly if it was true before or
  \<^verbatim>\<open>n >= total_steps\<close>. The quotient is stored also when \<^verbatim>\<open>finished\<close> was already true (the
  call then emits the warning of \<^verbatim>\<open>update\<close>), so the stored progress of the training variant
  can change after completion.
\<close>

theorem train_get_progress_spec:
  "train_get_progress [] h = ([], Returned 0, h)
   \<and> (metrics \<noteq> [] \<and> total_steps h \<noteq> 0 \<longrightarrow>
        train_get_progress metrics h =
          (if finished h then [''Callback has already ended''] else [],
           Returned (of_int (int (length metrics)) / of_int (total_steps h)),
           h\<lparr>finished := finished h \<or> total_steps h \<le> int (length metrics),
              progress := of_int (int (length metrics)) / of_int (total_steps h)\<rparr>))"
  by (simp add: train_get_progress_def update_def true_div_def)

theorem train_get_progress_spec_witness:
  "[()] \<noteq> []
   \<and> total_steps (snd (snd (update 2 (train_init 2 0)))) \<noteq> 0
   \<and> finished (snd (snd (update 2 (train_init 2 0))))
   \<and> progress (snd (snd (update 2 (train_init 2 0)))) = 1
   \<and> fst (snd (train_get_progress [()] (snd (snd (update 2 (train_init 2 0)))))) = Returned (1 / 2)
   \<and> progress (snd (snd (train_get_progress [()] (snd (snd (update 2 (train_init 2 0))))))) = 1 / 2
   \<and> finished (snd (snd (train_get_progress [()] (snd (snd (update 2 (train_init 2 0)))))))"
proof -
  let ?h = "snd (snd (update 2 (train_init 2 0)))"
  have f: "total_steps ?h = 2" "finished ?h" "progress ?h = 1"
    by (simp_all add: update_def true_div_def train_init_def init_def
          thread_progress_callback.defs)
  have m: "[()] \<noteq> []" by simp
  have nz: "total_steps ?h \<noteq> 0" using f by simp
  have "train_get_progress [()] ?h =
          (if finished ?h then [''Callback has already ended''] else [],
           Returned (of_int (int (length [()])) / of_int (total_steps ?h)),
           ?h\<lparr>finished := finished ?h \<or> total_steps ?h \<le> int (length [()]),
              progress := of_int (int (length [()])) / of_int (total_steps ?h)\<rparr>)"
    using train_get_progress_spec [of ?h "[()]"] m nz by blast
  then show ?thesis using f by simp
qed

end
